theory Spec2Isabelle
  imports Main
begin

section \<open>Go values\<close>

text \<open>
  A Go \<open>error\<close> value is modelled by its message (what \<open>err.Error()\<close> and the
  \<open>%v\<close> verb print) together with the answer of \<open>os.IsExist\<close> on it.  The Go
  value \<open>nil\<close> of type \<open>error\<close> is \<open>None\<close>.
\<close>

datatype error = GoError (Msg: string) (IsExist: bool)

text \<open>\<open>fmt.Errorf\<close> with the format already expanded: a fresh error that is not an
  "already exists" error.\<close>

definition Errorf :: "string \<Rightarrow> error" where
  "Errorf s = GoError s False"

text \<open>
  How a call of a Go function ends: it returns a value, the program panics (a panic in
  any goroutine ends the whole program), or the call never returns.
\<close>

datatype 'a outcome = Return 'a | Panic error | Hang

subsection \<open>Package \<open>strings\<close>\<close>

definition dquote :: char where
  "dquote = CHR 0x22"

definition HasPrefix :: "string \<Rightarrow> string \<Rightarrow> bool" where
  "HasPrefix s pre = (length pre \<le> length s \<and> take (length pre) s = pre)"

definition HasSuffix :: "string \<Rightarrow> string \<Rightarrow> bool" where
  "HasSuffix s suf = (length suf \<le> length s \<and> drop (length s - length suf) s = suf)"

definition TrimSuffix :: "string \<Rightarrow> string \<Rightarrow> string" where
  "TrimSuffix s suf = (if HasSuffix s suf then take (length s - length suf) s else s)"

text \<open>\<open>strings.Contains(s, substr)\<close>: \<open>substr\<close> occurs at some position of \<open>s\<close>.\<close>

fun Contains :: "string \<Rightarrow> string \<Rightarrow> bool" where
  "Contains [] sub = (sub = [])"
| "Contains (c # s) sub = (HasPrefix (c # s) sub \<or> Contains s sub)"

text \<open>\<open>strings.Join(elems, sep)\<close>.\<close>

fun strings_Join :: "string list \<Rightarrow> string \<Rightarrow> string" where
  "strings_Join [] sep = []"
| "strings_Join [e] sep = e"
| "strings_Join (e # es) sep = e @ sep @ strings_Join es sep"

subsection \<open>Slices\<close>

text \<open>\<open>make([]string, n)\<close>: \<open>n\<close> empty strings.\<close>

definition makeSlice :: "nat \<Rightarrow> string list" where
  "makeSlice n = replicate n []"

text \<open>
  The built-in \<open>copy(dst, src)\<close> overwrites the first \<open>min(len(dst), len(src))\<close>
  elements of \<open>dst\<close>; \<open>copyAt dst i src\<close> is \<open>copy(dst[i:], src)\<close>, which
  writes through the sub-slice into \<open>dst\<close>.
\<close>

definition copy :: "string list \<Rightarrow> string list \<Rightarrow> string list" where
  "copy dst src =
     take (min (length dst) (length src)) src @ drop (min (length dst) (length src)) dst"

definition copyAt :: "string list \<Rightarrow> nat \<Rightarrow> string list \<Rightarrow> string list" where
  "copyAt dst i src = take i dst @ copy (drop i dst) src"

subsection \<open>Package \<open>path/filepath\<close>\<close>

text \<open>
  The path functions depend on the target system.  \<open>windows\<close> tells whether the
  program is built for Windows (this also selects the copy backend below).  The length
  of a Windows volume name (a drive letter with its colon, or a UNC share) and the lexical cleaning
  done by \<open>filepath.Join\<close> are left to the platform; no property below depends on what
  they compute.
\<close>

record platform =
  windows :: bool
  winVolumeNameLen :: "string \<Rightarrow> nat"
  Join :: "string list \<Rightarrow> string"

definition bslash :: char where
  "bslash = CHR 0x5C"

definition IsPathSeparator :: "platform \<Rightarrow> char \<Rightarrow> bool" where
  "IsPathSeparator P c = (c = CHR ''/'' \<or> (windows P \<and> c = bslash))"

definition Separator :: "platform \<Rightarrow> char" where
  "Separator P = (if windows P then bslash else CHR ''/'')"

definition volumeNameLen :: "platform \<Rightarrow> string \<Rightarrow> nat" where
  "volumeNameLen P path = (if windows P then min (winVolumeNameLen P path) (length path) else 0)"

text \<open>
  \<open>filepath.Ext\<close>: scan from the end while no separator is met; at the first dot
  return the rest of the path from there.  \<open>extFrom P path n\<close> is the loop with
  index \<open>i = n - 1\<close>.
\<close>

fun extFrom :: "platform \<Rightarrow> string \<Rightarrow> nat \<Rightarrow> string" where
  "extFrom P path 0 = []"
| "extFrom P path (Suc i) =
     (if IsPathSeparator P (path ! i) then []
      else if path ! i = CHR ''.'' then drop i path
      else extFrom P path i)"

definition Ext :: "platform \<Rightarrow> string \<Rightarrow> string" where
  "Ext P path = extFrom P path (length path)"

text \<open>The characters after the last separator of \<open>path\<close> (all of it if there is none).\<close>

definition lastElem :: "platform \<Rightarrow> string \<Rightarrow> string" where
  "lastElem P path = rev (takeWhile (\<lambda>c. \<not> IsPathSeparator P c) (rev path))"

text \<open>
  \<open>filepath.Base\<close>: strip trailing separators, throw away the volume name, keep
  the last element.
\<close>

definition Base :: "platform \<Rightarrow> string \<Rightarrow> string" where
  "Base P path =
     (if path = [] then ''.''
      else
        let stripped = rev (dropWhile (IsPathSeparator P) (rev path));
            novol = drop (volumeNameLen P stripped) stripped;
            elem = lastElem P novol
        in if elem = [] then [Separator P] else elem)"

text \<open>\<open>filepath.Split\<close>: cut after the last separator that follows the volume name.\<close>

definition Split :: "platform \<Rightarrow> string \<Rightarrow> string \<times> string" where
  "Split P path =
     (let file = lastElem P (drop (volumeNameLen P path) path)
      in (take (length path - length file) path, file))"

subsection \<open>Package \<open>os/exec\<close>: commands and child processes\<close>

record Cmd =
  Path :: string
  Args :: "string list"

text \<open>
  What a started command does is chosen by the environment.  Times are nanoseconds
  since \<open>cmd.Start\<close>.
\<close>

record 'w child =
  startErr :: "error option"     \<comment> \<open>the error of \<open>cmd.Start\<close>\<close>
  exitsAt :: "nat option"        \<comment> \<open>when the child exits by itself; \<open>None\<close>: never\<close>
  waitErr :: "error option"      \<comment> \<open>what \<open>cmd.Wait\<close> reports for that exit\<close>
  stdout :: string               \<comment> \<open>what the child has written to its standard output by then\<close>
  effect :: "'w \<Rightarrow> 'w"           \<comment> \<open>what the child has done to the world by then\<close>
  stopLag :: nat                 \<comment> \<open>time from \<open>cmd.Wait\<close> returning to \<open>timer.Stop()\<close>\<close>
  killErr :: "error option"      \<comment> \<open>the result of \<open>Process.Kill\<close> on the running child\<close>
  killedErr :: error             \<comment> \<open>what \<open>cmd.Wait\<close> reports once the child has been killed\<close>
  killedEffect :: "'w \<Rightarrow> 'w"     \<comment> \<open>what the child had done to the world when it was killed\<close>

text \<open>
  The operating system, over a type \<open>'w\<close> of states of the world (file system,
  search path, log sinks).  Every call takes the current world; the calls that change it
  return the new one.
\<close>

record 'w os =
  Stat :: "'w \<Rightarrow> string \<Rightarrow> error option"
  MkdirAll :: "'w \<Rightarrow> string \<Rightarrow> error option \<times> 'w"
  RemoveAll :: "'w \<Rightarrow> string \<Rightarrow> error option \<times> 'w"
  WriteFile :: "'w \<Rightarrow> string \<Rightarrow> string \<Rightarrow> error option \<times> 'w"
  LookPath :: "'w \<Rightarrow> string \<Rightarrow> string option"
  Spawn :: "'w \<Rightarrow> Cmd \<Rightarrow> 'w child"

text \<open>
  \<open>exec.Command\<close>: the arguments are kept as a list, the name first.  A name
  without directory part is looked up in the search path.
\<close>

definition Command :: "platform \<Rightarrow> 'w os \<Rightarrow> 'w \<Rightarrow> string \<Rightarrow> string list \<Rightarrow> Cmd" where
  "Command P os w name arg =
     \<lparr>Path = (if Base P name = name
              then (case LookPath os w name of Some lp \<Rightarrow> lp | None \<Rightarrow> name)
              else name),
      Args = name # arg\<rparr>"

text \<open>\<open>cmd.Run()\<close>: start the command and wait for it, with no bound on the time.\<close>

definition Run :: "'w os \<Rightarrow> 'w \<Rightarrow> Cmd \<Rightarrow> error option outcome \<times> 'w" where
  "Run os w cmd =
     (let c = Spawn os w cmd in
      case startErr c of
        Some err \<Rightarrow> (Return (Some err), w)
      | None \<Rightarrow>
          (case exitsAt c of
             None \<Rightarrow> (Hang, w)
           | Some t \<Rightarrow> (Return (waitErr c), effect c w)))"

text \<open>\<open>cmd.Output()\<close>: as \<open>Run\<close>, also returning the captured standard output.\<close>

definition Output :: "'w os \<Rightarrow> 'w \<Rightarrow> Cmd \<Rightarrow> (string \<times> error option) outcome \<times> 'w" where
  "Output os w cmd =
     (let c = Spawn os w cmd in
      case startErr c of
        Some err \<Rightarrow> (Return ([], Some err), w)
      | None \<Rightarrow>
          (case exitsAt c of
             None \<Rightarrow> (Hang, w)
           | Some t \<Rightarrow> (Return (stdout c, waitErr c), effect c w)))"

text \<open>
  The message of an \<open>*exec.ExitError\<close> for a child that exited with a non-zero code
  is \<open>exit status\<close> followed by the code in decimal; \<open>exitResult\<close> is what
  \<open>cmd.Wait\<close> reports for an exit code.
\<close>

function itoa :: "nat \<Rightarrow> string" where
  "itoa n = (if n < 10 then [''0123456789'' ! n] else itoa (n div 10) @ [''0123456789'' ! (n mod 10)])"
  by pat_completeness auto
termination
  by (relation "measure id") auto

declare itoa.simps [simp del]

definition exitError :: "nat \<Rightarrow> error" where
  "exitError code = GoError (''exit status '' @ itoa code) False"

definition exitResult :: "nat \<Rightarrow> error option" where
  "exitResult code = (if code = 0 then None else Some (exitError code))"

text \<open>\<open>Process.Kill\<close> on a child that \<open>cmd.Wait\<close> has already collected.\<close>

definition errFinished :: error where
  "errFinished = GoError ''os: process already finished'' False"

section \<open>Configuration\<close>

record config =
  tikaInstall :: string
  imageMInstall :: string
  libreOfficeInstall :: string
  ffmpegInstall :: string
  thumbDimensions :: string
  timeout :: int                 \<comment> \<open>a \<open>time.Duration\<close>, in nanoseconds\<close>
  extractT :: "string list"     \<comment> \<open>the template \<open>extract\<close> (the name is reserved in Isabelle)\<close>
  thumb :: "string list"
  pdf :: "string list"
  ffmpeg :: "string list"

definition Second :: int where
  "Second = 1000000000"

definition defaults :: config where
  "defaults =
     (let tika = ''C:'' @ [bslash] @ ''apache_tika'' @ [bslash] @ ''tika-app-1.5.jar'';
          imageM = ''C:'' @ [bslash] @ ''Program Files'' @ [bslash] @ ''ImageMagick-6.8.8-Q16''
                     @ [bslash] @ ''convert.exe'';
          libreOffice = ''C:'' @ [bslash] @ ''Program Files'' @ [bslash] @ ''LibreOffice 5''
                     @ [bslash] @ ''program'' @ [bslash] @ ''soffice'';
          ffmpegI = ''C:'' @ [bslash] @ ''ffmpeg'' @ [bslash] @ ''bin'' @ [bslash] @ ''ffmpeg.exe'';
          dims = ''1024x1024''
      in \<lparr>tikaInstall = tika, imageMInstall = imageM, libreOfficeInstall = libreOffice,
          ffmpegInstall = ffmpegI, thumbDimensions = dims, timeout = 30 * Second,
          extractT = [''java'', ''-jar'', tika, ''-t''],
          thumb = [imageM, ''-resize'', dims, ''-flatten'', ''-quality'', ''100''],
          pdf = [libreOffice, ''--headless'', ''--convert-to'', ''pdf:writer_pdf_Export'', ''--outdir''],
          ffmpeg = [ffmpegI]\<rparr>)"

definition SetFFMpegPath :: "config \<Rightarrow> string \<Rightarrow> config" where
  "SetFFMpegPath cfg p = cfg\<lparr>ffmpegInstall := p, ffmpeg := [p]\<rparr>"

definition SetTikaPath :: "config \<Rightarrow> string \<Rightarrow> config" where
  "SetTikaPath cfg p = cfg\<lparr>tikaInstall := p, extractT := [''java'', ''-jar'', p, ''-t'']\<rparr>"

definition SetImageMPath :: "config \<Rightarrow> string \<Rightarrow> config" where
  "SetImageMPath cfg p =
     cfg\<lparr>imageMInstall := p,
         thumb := [p, ''-resize'', thumbDimensions cfg, ''-flatten'', ''-quality'', ''100'']\<rparr>"

definition SetLibreOPath :: "config \<Rightarrow> string \<Rightarrow> config" where
  "SetLibreOPath cfg p =
     cfg\<lparr>libreOfficeInstall := p,
         pdf := [p, ''--headless'', ''--convert-to'', ''pdf:writer_pdf_Export'', ''--outdir'']\<rparr>"

text \<open>\<open>SetThumb\<close> prints the two numbers with the verb \<open>%d\<close>.\<close>

definition showInt :: "int \<Rightarrow> string" where
  "showInt i = (if i < 0 then ''-'' @ itoa (nat (- i)) else itoa (nat i))"

definition SetThumb :: "config \<Rightarrow> int \<Rightarrow> int \<Rightarrow> config" where
  "SetThumb cfg x y =
     (let dims = showInt x @ ''x'' @ showInt y
      in cfg\<lparr>thumbDimensions := dims,
             thumb := [imageMInstall cfg, ''-resize'', dims, ''-flatten'', ''-quality'', ''100'']\<rparr>)"

definition SetTimeout :: "config \<Rightarrow> int \<Rightarrow> config" where
  "SetTimeout cfg t = cfg\<lparr>timeout := t\<rparr>"

text \<open>The templates of the copy backends (\<open>robocopy\<close> and \<open>xcopy\<close> on Windows,
  \<open>cp\<close> elsewhere).\<close>

definition rcp :: "string list" where "rcp = [''robocopy'']"
definition xcp :: "string list" where "xcp = [''xcopy'']"
definition cp :: "string list" where "cp = [''cp'']"

section \<open>Commands\<close>

text \<open>
  \<open>buildCmd\<close>: a slice of the right length is filled with the template and then the
  trailing arguments; indexing its first element panics when it is empty.
\<close>

definition indexOutOfRange :: error where
  "indexOutOfRange = GoError ''runtime error: index out of range [0] with length 0'' False"

definition buildCmd ::
  "platform \<Rightarrow> 'w os \<Rightarrow> 'w \<Rightarrow> string list \<Rightarrow> string list \<Rightarrow> Cmd outcome" where
  "buildCmd P os w template custom =
     (let cmd0 = makeSlice (length template + length custom);
          cmd1 = copy cmd0 template;
          cmd2 = copyAt cmd1 (length template) custom
      in case cmd2 of
           [] \<Rightarrow> Panic indexOutOfRange
         | name # arg \<Rightarrow> Return (Command P os w name arg))"

section \<open>Path quoting\<close>

definition quotePath :: "string \<Rightarrow> string" where
  "quotePath path =
     (if HasPrefix path [dquote] then path
      else if Contains path '' '' then [dquote] @ path @ [dquote]
      else path)"

section \<open>Bounded execution\<close>

text \<open>
  The timer made by \<open>time.AfterFunc\<close>: not yet created, waiting to fire, fired (its
  function has run), or stopped before firing.  \<open>timer.Stop()\<close> only changes a timer
  that is still waiting.
\<close>

datatype timer = Unset | Armed | Fired | Stopped

definition timerStop :: "timer \<Rightarrow> timer" where
  "timerStop t = (if t = Armed then Stopped else t)"

text \<open>
  \<open>timeOutRun\<close>.  After a successful start the timer is armed for \<open>dur\<close>.  Its
  function calls \<open>Process.Kill\<close> and panics if that reports an error.  Three things can
  happen: the timer fires while the child still runs (the child is killed and
  \<open>cmd.Wait\<close> reports that); the child has exited and \<open>cmd.Wait\<close> has collected
  it, but the timer fires before \<open>timer.Stop()\<close> is reached (then \<open>Process.Kill\<close>
  reports \<open>errFinished\<close>); or \<open>timer.Stop()\<close> comes first and the timer never
  fires.  The result carries the final state of the timer beside the returned error.
\<close>

definition timeOutRun ::
  "'w os \<Rightarrow> 'w \<Rightarrow> Cmd \<Rightarrow> int \<Rightarrow> (error option outcome \<times> timer) \<times> 'w" where
  "timeOutRun os w cmd dur =
     (let c = Spawn os w cmd in
      case startErr c of
        Some err \<Rightarrow> ((Return (Some err), Unset), w)
      | None \<Rightarrow>
          (let timer = Armed;
               kill = (case killErr c of
                         Some e \<Rightarrow> ((Panic e, Fired), killedEffect c w)
                       | None \<Rightarrow> ((Return (Some (killedErr c)), timerStop Fired), killedEffect c w))
           in case exitsAt c of
                None \<Rightarrow> kill
              | Some t \<Rightarrow>
                  if dur < int t then kill
                  else if dur < int (t + stopLag c) then ((Panic errFinished, Fired), effect c w)
                  else ((Return (waitErr c), timerStop timer), effect c w)))"

text \<open>
  The child is still running when \<open>dur\<close> has passed; the child is killed at the
  deadline: it was started, it is still running then, and \<open>Process.Kill\<close> succeeds.
\<close>

definition overruns :: "'w child \<Rightarrow> int \<Rightarrow> bool" where
  "overruns c dur = (case exitsAt c of None \<Rightarrow> True | Some t \<Rightarrow> dur < int t)"

definition killedAtDeadline :: "'w child \<Rightarrow> int \<Rightarrow> bool" where
  "killedAtDeadline c dur = (startErr c = None \<and> overruns c dur \<and> killErr c = None)"

section \<open>Overwrite guard and directory creation\<close>

definition handleOverwrite :: "'w os \<Rightarrow> 'w \<Rightarrow> bool \<Rightarrow> string \<Rightarrow> bool" where
  "handleOverwrite os w overwrite output =
     (if \<not> overwrite
      then (case Stat os w output of None \<Rightarrow> True | Some err \<Rightarrow> False)
      else False)"

definition MakeDir :: "'w os \<Rightarrow> 'w \<Rightarrow> string \<Rightarrow> (error option \<times> bool) \<times> 'w" where
  "MakeDir os w dir =
     (case MkdirAll os w dir of
        (err, w') \<Rightarrow>
          (case err of
             None \<Rightarrow> ((None, False), w')
           | Some e \<Rightarrow>
               if IsExist e then ((None, True), w')
               else ((Some (Errorf (''Commands: Error making directory '' @ dir
                                     @ '', error message: '' @ Msg e)), False), w')))"

text \<open>A path exists when \<open>os.Stat\<close> on it reports no error.\<close>

definition pathExists :: "'w os \<Rightarrow> 'w \<Rightarrow> string \<Rightarrow> bool" where
  "pathExists os w p = (Stat os w p = None)"

text \<open>A started tool fails when it cannot be started or exits with an error.\<close>

definition toolFails :: "'w child \<Rightarrow> bool" where
  "toolFails c = (startErr c \<noteq> None \<or> (exitsAt c \<noteq> None \<and> waitErr c \<noteq> None))"

section \<open>Operations\<close>

definition ExtractText ::
  "platform \<Rightarrow> 'w os \<Rightarrow> config \<Rightarrow> 'w \<Rightarrow> string \<Rightarrow> string \<Rightarrow> string \<Rightarrow> bool
     \<Rightarrow> error option outcome \<times> 'w" where
  "ExtractText P os cfg w input outdir outname overwrite =
     (let output = Join P [outdir, outname] in
      if handleOverwrite os w overwrite output then (Return None, w)
      else
        case MakeDir os w outdir of
          ((Some err, existed), w1) \<Rightarrow> (Return (Some err), w1)
        | ((None, existed), w1) \<Rightarrow>
            (case buildCmd P os w1 (extractT cfg) [input] of
               Panic e \<Rightarrow> (Panic e, w1)
             | Hang \<Rightarrow> (Hang, w1)
             | Return tikaCmd \<Rightarrow>
                 (case Output os w1 tikaCmd of
                    (Panic e, w2) \<Rightarrow> (Panic e, w2)
                  | (Hang, w2) \<Rightarrow> (Hang, w2)
                  | (Return (txt, Some err), w2) \<Rightarrow> (Return None, w2)
                  | (Return (txt, None), w2) \<Rightarrow>
                      (case WriteFile os w2 output txt of
                         (Some err, w3) \<Rightarrow>
                           (Return (Some (Errorf (''Commands: Error writing to '' @ output
                                                   @ '', error message: '' @ Msg err))), w3)
                       | (None, w3) \<Rightarrow> (Return None, w3)))))"

definition Thumbnail ::
  "platform \<Rightarrow> 'w os \<Rightarrow> config \<Rightarrow> 'w \<Rightarrow> string \<Rightarrow> string \<Rightarrow> string \<Rightarrow> bool
     \<Rightarrow> error option outcome \<times> 'w" where
  "Thumbnail P os cfg w input outdir outname overwrite =
     (let output = Join P [outdir, outname] in
      if handleOverwrite os w overwrite output then (Return None, w)
      else
        case buildCmd P os w (thumb cfg) [input @ ''[0]'', output] of
          Panic e \<Rightarrow> (Panic e, w)
        | Hang \<Rightarrow> (Hang, w)
        | Return thumbCmd \<Rightarrow>
            (case timeOutRun os w thumbCmd (timeout cfg) of
               ((res, tm), w1) \<Rightarrow> (res, w1)))"

definition robo ::
  "platform \<Rightarrow> 'w os \<Rightarrow> 'w \<Rightarrow> string \<Rightarrow> string \<Rightarrow> bool \<Rightarrow> Cmd outcome" where
  "robo P os w input outdir quote =
     (case Split P input of
        (dir0, fn) \<Rightarrow>
          (let dir = (if length dir0 > 0 then take (length dir0 - 1) dir0 else dir0)
           in if quote then buildCmd P os w rcp [quotePath dir, quotePath outdir, quotePath fn]
              else buildCmd P os w rcp [dir, outdir, fn]))"

definition xcopy ::
  "platform \<Rightarrow> 'w os \<Rightarrow> 'w \<Rightarrow> string \<Rightarrow> string \<Rightarrow> bool \<Rightarrow> Cmd outcome" where
  "xcopy P os w input outdir quote =
     (if quote then buildCmd P os w xcp [quotePath input, quotePath outdir]
      else buildCmd P os w xcp [input, outdir])"

text \<open>The text common to the errors of the copy backends, up to the error message.\<close>

definition copyErrorText :: "string \<Rightarrow> string \<Rightarrow> Cmd \<Rightarrow> string" where
  "copyErrorText input outdir cpCmd =
     ''Commands: Error copying '' @ input @ '' to '' @ outdir @ '' with command ''
       @ strings_Join (Path cpCmd # Args cpCmd) '' '' @ '', error message: ''"

definition runRobo ::
  "platform \<Rightarrow> 'w os \<Rightarrow> 'w \<Rightarrow> string \<Rightarrow> string \<Rightarrow> error option outcome \<times> 'w" where
  "runRobo P os w input outdir =
     (case robo P os w input outdir False of
        Panic e \<Rightarrow> (Panic e, w)
      | Hang \<Rightarrow> (Hang, w)
      | Return cpCmd \<Rightarrow>
          (case Run os w cpCmd of
             (Panic e, w1) \<Rightarrow> (Panic e, w1)
           | (Hang, w1) \<Rightarrow> (Hang, w1)
           | (Return None, w1) \<Rightarrow>
               (Return (Some (Errorf (copyErrorText input outdir cpCmd
                   @ ''No errors occurred and no files were copied''))), w1)
           | (Return (Some err), w1) \<Rightarrow>
               if Msg err = ''exit status 1'' then (Return None, w1)
               else (Return (Some (Errorf (copyErrorText input outdir cpCmd @ Msg err))), w1)))"

definition runXcopy ::
  "platform \<Rightarrow> 'w os \<Rightarrow> 'w \<Rightarrow> string \<Rightarrow> string \<Rightarrow> error option outcome \<times> 'w" where
  "runXcopy P os w input outdir =
     (case xcopy P os w input outdir False of
        Panic e \<Rightarrow> (Panic e, w)
      | Hang \<Rightarrow> (Hang, w)
      | Return cpCmd \<Rightarrow>
          (case Run os w cpCmd of
             (Panic e, w1) \<Rightarrow> (Panic e, w1)
           | (Hang, w1) \<Rightarrow> (Hang, w1)
           | (Return None, w1) \<Rightarrow> (Return None, w1)
           | (Return (Some err), w1) \<Rightarrow>
               (Return (Some (Errorf (copyErrorText input outdir cpCmd @ Msg err))), w1)))"

text \<open>
  \<open>copyCmd\<close> and \<open>fileCopy\<close> exist once per target system: \<open>xcopy\<close> and
  \<open>robocopy\<close> on Windows, \<open>cp\<close> elsewhere.
\<close>

definition copyCmd ::
  "platform \<Rightarrow> 'w os \<Rightarrow> 'w \<Rightarrow> string \<Rightarrow> string \<Rightarrow> bool \<Rightarrow> Cmd outcome" where
  "copyCmd P os w input outdir quote =
     (if windows P then xcopy P os w input outdir quote
      else buildCmd P os w cp [input, outdir])"

definition fileCopy ::
  "platform \<Rightarrow> 'w os \<Rightarrow> 'w \<Rightarrow> string \<Rightarrow> string \<Rightarrow> error option outcome \<times> 'w" where
  "fileCopy P os w input outdir =
     (if windows P then runRobo P os w input outdir
      else
        case copyCmd P os w input outdir False of
          Panic e \<Rightarrow> (Panic e, w)
        | Hang \<Rightarrow> (Hang, w)
        | Return cmd \<Rightarrow> Run os w cmd)"

definition FileCopy ::
  "platform \<Rightarrow> 'w os \<Rightarrow> 'w \<Rightarrow> string \<Rightarrow> string \<Rightarrow> bool \<Rightarrow> error option outcome \<times> 'w" where
  "FileCopy P os w input outdir overwrite =
     (let output = Join P [outdir, Base P input] in
      if handleOverwrite os w overwrite output then (Return None, w)
      else
        case MakeDir os w outdir of
          ((Some err, existed), w1) \<Rightarrow> (Return (Some err), w1)
        | ((None, existed), w1) \<Rightarrow> fileCopy P os w1 input outdir)"

text \<open>
  \<open>FileCopyLog\<close> writes the copy command to the log instead of running it.  The
  writer \<open>lg\<close> takes the world and the bytes and returns the error of the write.
\<close>

definition FileCopyLog ::
  "platform \<Rightarrow> 'w os \<Rightarrow> 'w \<Rightarrow> ('w \<Rightarrow> string \<Rightarrow> error option \<times> 'w) \<Rightarrow> string \<Rightarrow> string \<Rightarrow> bool
     \<Rightarrow> error option outcome \<times> 'w" where
  "FileCopyLog P os w lg input outdir overwrite =
     (let output = Join P [outdir, Base P input] in
      if handleOverwrite os w overwrite output then (Return None, w)
      else
        case MakeDir os w outdir of
          ((Some err, existed), w1) \<Rightarrow> (Return (Some err), w1)
        | ((None, existed), w1) \<Rightarrow>
            (case copyCmd P os w1 input outdir True of
               Panic e \<Rightarrow> (Panic e, w1)
             | Hang \<Rightarrow> (Hang, w1)
             | Return cpCmd \<Rightarrow>
                 (case lg w1 (strings_Join (Args cpCmd) '' '' @ [CHR 0x0A]) of
                    (err, w2) \<Rightarrow> (Return err, w2))))"

text \<open>The extensions named in the \<open>switch\<close> of \<open>WordToPdf\<close>.\<close>

definition wordExts :: "string list" where
  "wordExts = [''.doc'', ''.DOC'', ''.docx'', ''.DOCX'', ''.dotx'', ''.DOTX'', ''.docm'', ''.DOCM'']"

text \<open>The value of the variable \<open>output\<close> of \<open>WordToPdf\<close> after its \<open>switch\<close>.\<close>

definition pdfOutput :: "platform \<Rightarrow> string \<Rightarrow> string \<Rightarrow> string" where
  "pdfOutput P input outdir =
     (if Ext P input \<in> set wordExts
      then Join P [outdir, TrimSuffix (Base P input) (Ext P input) @ ''.pdf'']
      else Join P [outdir, Base P input @ ''.pdf''])"

definition WordToPdf ::
  "platform \<Rightarrow> 'w os \<Rightarrow> config \<Rightarrow> 'w \<Rightarrow> string \<Rightarrow> string \<Rightarrow> bool
     \<Rightarrow> (string \<times> error option) outcome \<times> 'w" where
  "WordToPdf P os cfg w input outdir overwrite =
     (let output = pdfOutput P input outdir in
      if handleOverwrite os w overwrite output then (Return (output, None), w)
      else
        case MakeDir os w outdir of
          ((Some err, existed), w1) \<Rightarrow> (Return ([], Some err), w1)
        | ((None, existed), w1) \<Rightarrow>
            (case buildCmd P os w1 (pdf cfg) [outdir, input] of
               Panic e \<Rightarrow> (Panic e, w1)
             | Hang \<Rightarrow> (Hang, w1)
             | Return pdfCmd \<Rightarrow>
                 (case timeOutRun os w1 pdfCmd (timeout cfg) of
                    ((Panic e, tm), w2) \<Rightarrow> (Panic e, w2)
                  | ((Hang, tm), w2) \<Rightarrow> (Hang, w2)
                  | ((Return ignored, tm), w2) \<Rightarrow>
                      (case Stat os w2 output of
                         Some err \<Rightarrow>
                           (case RemoveAll os w2 outdir of
                              (Some e, w3) \<Rightarrow>
                                (Return ([], Some (Errorf (''Can't create, can't delete: ''
                                                   @ Msg err @ '', '' @ Msg e))), w3)
                            | (None, w3) \<Rightarrow> (Return ([], None), w3))
                       | None \<Rightarrow> (Return (output, None), w2)))))"

section \<open>Format classification\<close>

definition IsWord :: "string \<Rightarrow> bool" where
  "IsWord puid =
     (if puid \<in> set [''fmt/37'', ''fmt/38'', ''fmt/39'', ''fmt/40'', ''fmt/412'', ''fmt/523'',
                      ''fmt/597'', ''fmt/599'', ''fmt/609'', ''fmt/754'', ''x-fmt/45'']
      then True else False)"

definition IsPDF :: "string \<Rightarrow> bool" where
  "IsPDF puid =
     (if puid \<in> set [''fmt/14'', ''fmt/15'', ''fmt/16'', ''fmt/17'', ''fmt/18'', ''fmt/19'',
                      ''fmt/20'', ''fmt/95'', ''fmt/144'', ''fmt/145'', ''fmt/146'', ''fmt/147'',
                      ''fmt/148'', ''fmt/157'', ''fmt/158'', ''fmt/276'', ''fmt/354'', ''fmt/476'',
                      ''fmt/477'', ''fmt/478'', ''fmt/479'', ''fmt/480'', ''fmt/481'', ''fmt/488'',
                      ''fmt/489'', ''fmt/490'', ''fmt/491'', ''fmt/492'', ''fmt/493'']
      then True else False)"

definition IsText :: "string \<Rightarrow> bool" where
  "IsText puid =
     (if puid \<in> set [''fmt/14'', ''fmt/15'', ''fmt/16'', ''fmt/17'', ''fmt/18'', ''fmt/19'',
                      ''fmt/20'', ''fmt/37'', ''fmt/38'', ''fmt/39'', ''fmt/40'', ''fmt/95'',
                      ''fmt/144'', ''fmt/145'', ''fmt/146'', ''fmt/147'', ''fmt/148'', ''fmt/157'',
                      ''fmt/158'', ''fmt/276'', ''fmt/354'', ''fmt/412'', ''fmt/473'', ''fmt/476'',
                      ''fmt/477'', ''fmt/478'', ''fmt/479'', ''fmt/480'', ''fmt/481'', ''fmt/488'',
                      ''fmt/489'', ''fmt/490'', ''fmt/491'', ''fmt/492'', ''fmt/493'', ''fmt/523'',
                      ''fmt/597'', ''fmt/599'', ''fmt/609'', ''fmt/754'', ''x-fmt/45'', ''x-fmt/111'',
                      ''x-fmt/273'', ''x-fmt/274'', ''x-fmt/275'', ''x-fmt/276'']
      then True else False)"

section \<open>Example systems\<close>

text \<open>
  Concrete platforms and a small operating system on which the operations can be run.
  The world is the list of the paths that exist; \<open>Join\<close> puts a separator between
  the elements, which is what \<open>filepath.Join\<close> does for clean, non-empty elements.
\<close>

definition unixP :: platform where
  "unixP = \<lparr>windows = False, winVolumeNameLen = (\<lambda>p. 0), Join = (\<lambda>es. strings_Join es ''/'')\<rparr>"

definition winP :: platform where
  "winP = \<lparr>windows = True,
           winVolumeNameLen = (\<lambda>p. if length p \<ge> 2 \<and> p ! 1 = CHR '':'' then 2 else 0),
           Join = (\<lambda>es. strings_Join es [bslash])\<rparr>"

definition noSuchFile :: "string \<Rightarrow> error" where
  "noSuchFile p = GoError (''stat '' @ p @ '': no such file or directory'') False"

definition exampleOS :: "(Cmd \<Rightarrow> string list child) \<Rightarrow> error option \<Rightarrow> string list os" where
  "exampleOS tool rmErr =
     \<lparr>Stat = (\<lambda>w p. if p \<in> set w then None else Some (noSuchFile p)),
      MkdirAll = (\<lambda>w d. (None, if d \<in> set w then w else d # w)),
      RemoveAll = (\<lambda>w d. case rmErr of
                               Some e \<Rightarrow> (Some e, w)
                             | None \<Rightarrow> (None, filter (\<lambda>q. \<not> HasPrefix q d) w)),
      WriteFile = (\<lambda>w p data. (None, if p \<in> set w then w else p # w)),
      LookPath = (\<lambda>w name. None),
      Spawn = (\<lambda>w cmd. tool cmd)\<rparr>"

text \<open>A child that exits by itself at time \<open>t\<close> with result \<open>res\<close>, having done \<open>eff\<close>.\<close>

definition exampleChild ::
  "nat \<Rightarrow> error option \<Rightarrow> (string list \<Rightarrow> string list) \<Rightarrow> string list child" where
  "exampleChild t res eff =
     \<lparr>startErr = None, exitsAt = Some t, waitErr = res, stdout = ''some text'', effect = eff,
      stopLag = 1000, killErr = None, killedErr = GoError ''signal: killed'' False,
      killedEffect = (\<lambda>w. w)\<rparr>"

definition exitsWith :: "nat \<Rightarrow> Cmd \<Rightarrow> string list child" where
  "exitsWith code cmd = exampleChild 5000 (exitResult code) (\<lambda>w. w)"

definition roboExample :: Cmd where
  "roboExample = \<lparr>Path = ''robocopy'', Args = [''robocopy'', ''/data'', ''/out'', ''a b.txt'']\<rparr>"

text \<open>A log writer that accepts every line.\<close>

definition logTo :: "string list \<Rightarrow> string \<Rightarrow> error option \<times> string list" where
  "logTo w line = (None, w)"

text \<open>The same system with directory creation refused.\<close>

definition mkdirDenied :: "string list os \<Rightarrow> string list os" where
  "mkdirDenied os = os\<lparr>MkdirAll := (\<lambda>w d. (Some (GoError (''mkdir '' @ d @ '': permission denied'') False), w))\<rparr>"

text \<open>A tool that exits with code 0 after creating the path \<open>p\<close>.\<close>

definition producing :: "string \<Rightarrow> Cmd \<Rightarrow> string list child" where
  "producing p cmd = exampleChild 5000 None (\<lambda>w. p # w)"

definition removeDenied :: error where
  "removeDenied = GoError ''remove out: access denied'' False"

text \<open>A tool that never exits by itself.\<close>

definition neverExits :: "Cmd \<Rightarrow> string list child" where
  "neverExits cmd = (exampleChild 0 None (\<lambda>w. w))\<lparr>exitsAt := None\<rparr>"

definition pdfCmdExample :: Cmd where
  "pdfCmdExample = \<lparr>Path = libreOfficeInstall defaults, Args = pdf defaults @ [''out'', ''in/a.docx'']\<rparr>"

definition thumbCmdExample :: Cmd where
  "thumbCmdExample = \<lparr>Path = imageMInstall defaults,
      Args = thumb defaults @ [''in/a.tif[0]'', ''out/a.png'']\<rparr>"

lemmas example_defs =
  unixP_def winP_def exampleOS_def exampleChild_def exitsWith_def noSuchFile_def
  IsPathSeparator_def Separator_def volumeNameLen_def lastElem_def Base_def Split_def Ext_def
  Command_def Let_def

section \<open>Properties\<close>

subsection \<open>Strings\<close>

lemma HasPrefix_single: "HasPrefix s [c] = (\<exists>t. s = c # t)"
  by (cases s) (auto simp: HasPrefix_def)

lemma Contains_single: "Contains s [c] = (c \<in> set s)"
  by (induction s) (auto simp: HasPrefix_single)

subsection \<open>Path quoting\<close>

lemma quotePath_quoted: "HasPrefix p [dquote] \<Longrightarrow> quotePath p = p"
  by (simp add: quotePath_def)

lemma quotePath_no_space: "CHR '' '' \<notin> set p \<Longrightarrow> quotePath p = p"
  by (simp add: quotePath_def Contains_single)

lemma quotePath_wrap:
  "\<not> HasPrefix p [dquote] \<Longrightarrow> CHR '' '' \<in> set p \<Longrightarrow> quotePath p = [dquote] @ p @ [dquote]"
  by (simp add: quotePath_def Contains_single)

lemma quotePath_starts_quoted:
  "\<not> HasPrefix p [dquote] \<Longrightarrow> CHR '' '' \<in> set p \<Longrightarrow> HasPrefix (quotePath p) [dquote]"
  by (simp add: quotePath_wrap HasPrefix_single)

text \<open>
  C7.  For every string \<open>p\<close>: quoting twice is the same as quoting once; a path
  without a space character is returned unchanged; a path that begins with a double
  quote is returned unchanged; any other path that contains a space is wrapped in double
  quotes.
\<close>

theorem quotePath_idempotent_and_cases:
  "quotePath (quotePath p) = quotePath p
   \<and> (\<not> Contains p '' '' \<longrightarrow> quotePath p = p)
   \<and> (HasPrefix p [dquote] \<longrightarrow> quotePath p = p)
   \<and> (\<not> HasPrefix p [dquote] \<and> Contains p '' '' \<longrightarrow> quotePath p = [dquote] @ p @ [dquote])"
proof -
  have idem: "quotePath (quotePath p) = quotePath p"
  proof (cases "HasPrefix p [dquote]")
    case True
    then show ?thesis by (simp add: quotePath_quoted)
  next
    case unquoted: False
    show ?thesis
    proof (cases "CHR '' '' \<in> set p")
      case True
      with unquoted have "HasPrefix (quotePath p) [dquote]"
        by (rule quotePath_starts_quoted)
      then show ?thesis by (rule quotePath_quoted)
    next
      case False
      then show ?thesis by (simp add: quotePath_no_space)
    qed
  qed
  show ?thesis
    using idem by (simp add: quotePath_def Contains_single)
qed

theorem quotePath_idempotent_and_cases_witness:
  "\<not> Contains ''C:/data/a.txt'' '' '' \<and> quotePath ''C:/data/a.txt'' = ''C:/data/a.txt''
   \<and> HasPrefix (dquote # ''my docs'') [dquote] \<and> quotePath (dquote # ''my docs'') = dquote # ''my docs''
   \<and> \<not> HasPrefix ''my docs'' [dquote] \<and> Contains ''my docs'' '' ''
   \<and> quotePath ''my docs'' = [dquote] @ ''my docs'' @ [dquote]
   \<and> quotePath (quotePath ''my docs'') = quotePath ''my docs''"
  using quotePath_idempotent_and_cases [of "''C:/data/a.txt''"]
    quotePath_idempotent_and_cases [of "dquote # ''my docs''"]
    quotePath_idempotent_and_cases [of "''my docs''"]
  by (simp add: quotePath_def HasPrefix_def Contains_single dquote_def)

subsection \<open>Format classification\<close>

text \<open>
  C10.  Every PUID classified as a Word format is classified as a text format, and every
  PUID classified as a PDF format is classified as a text format.
\<close>

theorem IsWord_IsPDF_imp_IsText:
  "(IsWord p \<longrightarrow> IsText p) \<and> (IsPDF p \<longrightarrow> IsText p)"
proof
  show "IsWord p \<longrightarrow> IsText p"
    by (auto simp: IsWord_def IsText_def)
  show "IsPDF p \<longrightarrow> IsText p"
    by (auto simp: IsPDF_def IsText_def)
qed

theorem IsWord_IsPDF_imp_IsText_witness:
  "IsWord ''fmt/412'' \<and> IsText ''fmt/412'' \<and> IsPDF ''fmt/276'' \<and> IsText ''fmt/276''"
  using IsWord_IsPDF_imp_IsText [of "''fmt/412''"] IsWord_IsPDF_imp_IsText [of "''fmt/276''"]
  by (simp add: IsWord_def IsPDF_def)

subsection \<open>Command building\<close>

lemma copy_fills: "copyAt (copy (makeSlice (length T + length A)) T) (length T) A = T @ A"
  by (simp add: copyAt_def copy_def makeSlice_def)

lemma buildCmd_eq:
  "buildCmd P os w T A =
     (case T @ A of [] \<Rightarrow> Panic indexOutOfRange | name # arg \<Rightarrow> Return (Command P os w name arg))"
  by (simp add: buildCmd_def copy_fills)

lemma Args_Command: "Args (Command P os w name arg) = name # arg"
  by (simp add: Command_def)

text \<open>
  C9.  For a non-empty template \<open>T\<close> and any trailing arguments \<open>A\<close>, \<open>buildCmd\<close>
  returns a command whose argument list is exactly \<open>T\<close> followed by \<open>A\<close>: the tokens
  are the given strings, in the given order, whatever characters they contain.
\<close>

theorem buildCmd_tokens:
  assumes "T \<noteq> []"
  shows "\<exists>cmd. buildCmd P os w T A = Return cmd \<and> Args cmd = T @ A"
proof -
  from assms obtain name rest where T: "T = name # rest"
    by (cases T) auto
  have filled: "copyAt (copy (makeSlice (length T + length A)) T) (length T) A = name # (rest @ A)"
    using copy_fills [of T A] T by simp
  have "buildCmd P os w T A = Return (Command P os w name (rest @ A))"
    unfolding buildCmd_def Let_def filled by simp
  moreover have "Args (Command P os w name (rest @ A)) = T @ A"
    using T by (simp add: Args_Command)
  ultimately show ?thesis by blast
qed

theorem buildCmd_tokens_witness:
  "xcp \<noteq> [] \<and>
   (\<exists>cmd. buildCmd winP (exampleOS (exitsWith 0) None) [] xcp [''C:/my docs/a b.txt'', ''D:/out dir''] = Return cmd
      \<and> Args cmd = [''xcopy'', ''C:/my docs/a b.txt'', ''D:/out dir''])"
  using buildCmd_tokens [of xcp winP "exampleOS (exitsWith 0) None" "[]" "[''C:/my docs/a b.txt'', ''D:/out dir'']"]
  by (simp add: xcp_def)

subsection \<open>Exit codes\<close>

lemma itoa_nonempty: "itoa n \<noteq> []"
  by (subst itoa.simps) simp

lemma itoa_small: "n < 10 \<Longrightarrow> itoa n = [''0123456789'' ! n]"
  by (subst itoa.simps) simp

lemma itoa_large: "\<not> n < 10 \<Longrightarrow> length (itoa n) \<ge> 2"
proof -
  assume "\<not> n < 10"
  then have "itoa n = itoa (n div 10) @ [''0123456789'' ! (n mod 10)]"
    by (subst itoa.simps) simp
  moreover have "length (itoa (n div 10)) \<ge> 1"
    using itoa_nonempty [of "n div 10"] by (cases "itoa (n div 10)") simp_all
  ultimately show ?thesis by simp
qed

lemma digit_1: "n < 10 \<Longrightarrow> (''0123456789'' ! n = CHR ''1'') = (n = 1)"
  by (auto simp: eval_nat_numeral less_Suc_eq)

lemma itoa_1: "itoa n = ''1'' \<longleftrightarrow> n = 1"
proof (cases "n < 10")
  case True
  then show ?thesis
    by (simp add: itoa_small digit_1)
next
  case False
  then have "length (itoa n) \<ge> 2" by (rule itoa_large)
  with False show ?thesis by auto
qed

lemma exitError_not_1: "code \<noteq> 1 \<Longrightarrow> Msg (exitError code) \<noteq> ''exit status 1''"
  by (simp add: exitError_def itoa_1)

lemma exitError_1: "Msg (exitError (Suc 0)) = ''exit status 1''"
  by (simp add: exitError_def itoa_small)

lemma Run_exits:
  "startErr (Spawn os w cmd) = None \<Longrightarrow> exitsAt (Spawn os w cmd) = Some t \<Longrightarrow>
   Run os w cmd = (Return (waitErr (Spawn os w cmd)), effect (Spawn os w cmd) w)"
  by (simp add: Run_def Let_def)

subsection \<open>Copying with \<open>robocopy\<close>\<close>

text \<open>\<open>robo\<close> always builds a command: \<open>robocopy\<close>, the directory of the input, the
  output directory and the file name.\<close>

lemma robo_returns:
  "\<exists>cpCmd. robo P os w input outdir quote = Return cpCmd \<and> length (Args cpCmd) = 4
     \<and> hd (Args cpCmd) = ''robocopy''
     \<and> Args cpCmd ! 2 = (if quote then quotePath outdir else outdir)"
  by (simp add: robo_def buildCmd_eq rcp_def Args_Command split: prod.split)

text \<open>On Windows, once the guard has passed and the directory has been made,
  \<open>FileCopy\<close> is \<open>runRobo\<close>.\<close>

lemma FileCopy_windows:
  "windows P \<Longrightarrow> \<not> handleOverwrite os w overwrite (Join P [outdir, Base P input]) \<Longrightarrow>
   MakeDir os w outdir = ((None, existed), w1) \<Longrightarrow>
   FileCopy P os w input outdir overwrite = runRobo P os w1 input outdir"
  by (simp add: FileCopy_def fileCopy_def)

text \<open>
  C1.  \<open>runRobo\<close> on a copy command that starts and exits with code \<open>code\<close>: code 0
  gives the error "No errors occurred and no files were copied"; code 1 gives no error;
  every other code gives an error whose text carries the input, the output directory, the
  command with its arguments, and the exit status.
\<close>

theorem runRobo_exit_codes:
  assumes cmd: "robo P os w input outdir False = Return cpCmd"
    and started: "startErr (Spawn os w cpCmd) = None"
    and exits: "exitsAt (Spawn os w cpCmd) = Some t"
    and code: "waitErr (Spawn os w cpCmd) = exitResult code"
  shows "fst (runRobo P os w input outdir) =
     (if code = 0 then
        Return (Some (Errorf (''Commands: Error copying '' @ input @ '' to '' @ outdir
          @ '' with command '' @ strings_Join (Path cpCmd # Args cpCmd) '' ''
          @ '', error message: No errors occurred and no files were copied'')))
      else if code = 1 then Return None
      else
        Return (Some (Errorf (''Commands: Error copying '' @ input @ '' to '' @ outdir
          @ '' with command '' @ strings_Join (Path cpCmd # Args cpCmd) '' ''
          @ '', error message: exit status '' @ itoa code))))"
proof -
  have run: "Run os w cpCmd = (Return (exitResult code), effect (Spawn os w cpCmd) w)"
    using Run_exits [OF started exits] code by simp
  show ?thesis
  proof (cases "code = 0")
    case True
    then show ?thesis
      by (simp add: runRobo_def cmd run exitResult_def copyErrorText_def)
  next
    case nonzero: False
    show ?thesis
    proof (cases "code = 1")
      case True
      then show ?thesis
        by (simp add: runRobo_def cmd run exitResult_def exitError_1)
    next
      case False
      with nonzero show ?thesis
        by (simp add: runRobo_def cmd run exitResult_def exitError_not_1 copyErrorText_def)
          (simp add: exitError_def)
    qed
  qed
qed

lemma robo_example:
  "robo unixP (exampleOS (exitsWith code) None) [] ''/data/a b.txt'' ''/out'' False = Return roboExample"
  by (simp add: robo_def buildCmd_eq rcp_def roboExample_def example_defs)

theorem runRobo_exit_codes_witness:
  "fst (runRobo unixP (exampleOS (exitsWith 0) None) [] ''/data/a b.txt'' ''/out'') =
     Return (Some (Errorf (''Commands: Error copying /data/a b.txt to /out with command ''
       @ ''robocopy robocopy /data /out a b.txt''
       @ '', error message: No errors occurred and no files were copied'')))
   \<and> fst (runRobo unixP (exampleOS (exitsWith 1) None) [] ''/data/a b.txt'' ''/out'') = Return None
   \<and> fst (runRobo unixP (exampleOS (exitsWith 16) None) [] ''/data/a b.txt'' ''/out'') =
     Return (Some (Errorf (''Commands: Error copying /data/a b.txt to /out with command ''
       @ ''robocopy robocopy /data /out a b.txt'' @ '', error message: exit status 16'')))"
proof -
  have child: "startErr (Spawn (exampleOS (exitsWith code) None) [] roboExample) = None"
    "exitsAt (Spawn (exampleOS (exitsWith code) None) [] roboExample) = Some 5000"
    "waitErr (Spawn (exampleOS (exitsWith code) None) [] roboExample) = exitResult code" for code
    by (simp_all add: example_defs)
  have sixteen: "itoa 16 = ''16''"
    by (simp add: itoa.simps)
  show ?thesis
    using runRobo_exit_codes [OF robo_example child, of 0]
      runRobo_exit_codes [OF robo_example child, of 1]
      runRobo_exit_codes [OF robo_example child, of 16]
    by (simp add: roboExample_def sixteen)
qed

subsection \<open>Overwrite guard\<close>

text \<open>
  C8.  \<open>handleOverwrite\<close> signals skip exactly when the overwrite flag is false and the
  destination exists.  Every operation that gets the skip signal returns success at once
  and leaves the world as it was; \<open>WordToPdf\<close> then returns the destination path.
\<close>

theorem handleOverwrite_skip:
  "handleOverwrite os w overwrite dest = (\<not> overwrite \<and> pathExists os w dest)
   \<and> (handleOverwrite os w overwrite (Join P [outdir, outname]) \<longrightarrow>
        ExtractText P os cfg w input outdir outname overwrite = (Return None, w)
        \<and> Thumbnail P os cfg w input outdir outname overwrite = (Return None, w))
   \<and> (handleOverwrite os w overwrite (Join P [outdir, Base P input]) \<longrightarrow>
        FileCopy P os w input outdir overwrite = (Return None, w)
        \<and> FileCopyLog P os w lg input outdir overwrite = (Return None, w))
   \<and> (handleOverwrite os w overwrite (pdfOutput P input outdir) \<longrightarrow>
        WordToPdf P os cfg w input outdir overwrite = (Return (pdfOutput P input outdir, None), w))"
proof -
  have guard: "handleOverwrite os w overwrite dest = (\<not> overwrite \<and> pathExists os w dest)"
    by (simp add: handleOverwrite_def pathExists_def split: option.split)
  have "handleOverwrite os w overwrite (Join P [outdir, outname]) \<Longrightarrow>
      ExtractText P os cfg w input outdir outname overwrite = (Return None, w)"
    by (simp add: ExtractText_def)
  moreover have "handleOverwrite os w overwrite (Join P [outdir, outname]) \<Longrightarrow>
      Thumbnail P os cfg w input outdir outname overwrite = (Return None, w)"
    by (simp add: Thumbnail_def)
  moreover have "handleOverwrite os w overwrite (Join P [outdir, Base P input]) \<Longrightarrow>
      FileCopy P os w input outdir overwrite = (Return None, w)"
    by (simp add: FileCopy_def)
  moreover have "handleOverwrite os w overwrite (Join P [outdir, Base P input]) \<Longrightarrow>
      FileCopyLog P os w lg input outdir overwrite = (Return None, w)"
    by (simp add: FileCopyLog_def)
  moreover have "handleOverwrite os w overwrite (pdfOutput P input outdir) \<Longrightarrow>
      WordToPdf P os cfg w input outdir overwrite = (Return (pdfOutput P input outdir, None), w)"
    by (simp add: WordToPdf_def)
  ultimately show ?thesis
    using guard by blast
qed

theorem handleOverwrite_skip_witness:
  "handleOverwrite (exampleOS (exitsWith 0) None) [''out/a.txt'', ''out/a.txt.pdf''] False ''out/a.txt''
   \<and> \<not> handleOverwrite (exampleOS (exitsWith 0) None) [''out/a.txt'', ''out/a.txt.pdf''] True ''out/a.txt''
   \<and> \<not> handleOverwrite (exampleOS (exitsWith 0) None) [''out/a.txt'', ''out/a.txt.pdf''] False ''out/b.txt''
   \<and> ExtractText unixP (exampleOS (exitsWith 0) None) defaults [''out/a.txt'', ''out/a.txt.pdf'']
         ''in/a.doc'' ''out'' ''a.txt'' False = (Return None, [''out/a.txt'', ''out/a.txt.pdf''])
   \<and> Thumbnail unixP (exampleOS (exitsWith 0) None) defaults [''out/a.txt'', ''out/a.txt.pdf'']
         ''in/a.doc'' ''out'' ''a.txt'' False = (Return None, [''out/a.txt'', ''out/a.txt.pdf''])
   \<and> FileCopy unixP (exampleOS (exitsWith 0) None) [''out/a.txt'', ''out/a.txt.pdf'']
         ''in/a.txt'' ''out'' False = (Return None, [''out/a.txt'', ''out/a.txt.pdf''])
   \<and> FileCopyLog unixP (exampleOS (exitsWith 0) None) [''out/a.txt'', ''out/a.txt.pdf''] logTo
         ''in/a.txt'' ''out'' False = (Return None, [''out/a.txt'', ''out/a.txt.pdf''])
   \<and> WordToPdf unixP (exampleOS (exitsWith 0) None) defaults [''out/a.txt'', ''out/a.txt.pdf'']
         ''in/a.txt'' ''out'' False = (Return (''out/a.txt.pdf'', None), [''out/a.txt'', ''out/a.txt.pdf''])"
proof -
  have base: "Base unixP ''in/a.txt'' = ''a.txt''"
    by (simp add: example_defs)
  have out: "pdfOutput unixP ''in/a.txt'' ''out'' = ''out/a.txt.pdf''"
    by (simp add: pdfOutput_def wordExts_def example_defs)
  have join: "Join unixP [''out'', ''a.txt''] = ''out/a.txt''"
    by (simp add: unixP_def)
  have stat: "Stat (exampleOS (exitsWith 0) None) [''out/a.txt'', ''out/a.txt.pdf''] p =
      (if p = ''out/a.txt'' \<or> p = ''out/a.txt.pdf'' then None else Some (noSuchFile p))" for p
    by (simp add: exampleOS_def)
  show ?thesis
    using
      handleOverwrite_skip [where os = "exampleOS (exitsWith 0) None"
        and w = "[''out/a.txt'', ''out/a.txt.pdf'']" and overwrite = False and dest = "''out/a.txt''"
        and P = unixP and outdir = "''out''" and outname = "''a.txt''" and input = "''in/a.txt''"
        and cfg = defaults and lg = logTo]
      handleOverwrite_skip [where os = "exampleOS (exitsWith 0) None"
        and w = "[''out/a.txt'', ''out/a.txt.pdf'']" and overwrite = False and dest = "''out/a.txt''"
        and P = unixP and outdir = "''out''" and outname = "''a.txt''" and input = "''in/a.doc''"
        and cfg = defaults and lg = logTo]
    by (simp add: base out join handleOverwrite_def stat pathExists_def noSuchFile_def)
qed

subsection \<open>Text extraction\<close>

lemma tikaCmd_returns:
  "\<exists>tikaCmd. buildCmd P os w (extractT cfg) [input] = Return tikaCmd \<and> Args tikaCmd = extractT cfg @ [input]"
  by (cases "extractT cfg") (simp_all add: buildCmd_eq Args_Command)

lemma Output_toolFails:
  "toolFails (Spawn os w cmd) \<Longrightarrow>
   \<exists>txt err. Output os w cmd =
     (Return (txt, Some err), if startErr (Spawn os w cmd) \<noteq> None then w else effect (Spawn os w cmd) w)"
  by (auto simp: toolFails_def Output_def Let_def split: option.splits)

lemma ExtractText_tool_failure:
  assumes guard: "\<not> handleOverwrite os w overwrite (Join P [outdir, outname])"
    and mk: "MakeDir os w outdir = ((None, existed), w1)"
    and cmd: "buildCmd P os w1 (extractT cfg) [input] = Return tikaCmd"
    and failing: "toolFails (Spawn os w1 tikaCmd)"
  shows "ExtractText P os cfg w input outdir outname overwrite =
     (Return None, if startErr (Spawn os w1 tikaCmd) \<noteq> None then w1
                   else effect (Spawn os w1 tikaCmd) w1)"
proof -
  from Output_toolFails [OF failing] obtain captured err where
    "Output os w1 tikaCmd = (Return (captured, Some err),
       if startErr (Spawn os w1 tikaCmd) \<noteq> None then w1 else effect (Spawn os w1 tikaCmd) w1)"
    by blast
  with guard show ?thesis
    by (simp add: ExtractText_def mk cmd)
qed

lemma ExtractText_error_origin:
  assumes res: "ExtractText P os cfg w input outdir outname overwrite = (Return (Some err), w')"
  shows "(\<exists>e. MkdirAll os w outdir = (Some e, w') \<and> \<not> IsExist e
            \<and> err = Errorf (''Commands: Error making directory '' @ outdir
                              @ '', error message: '' @ Msg e))
       \<or> (\<exists>existed w1 tikaCmd txt w2 e.
            MakeDir os w outdir = ((None, existed), w1)
            \<and> buildCmd P os w1 (extractT cfg) [input] = Return tikaCmd
            \<and> Output os w1 tikaCmd = (Return (txt, None), w2)
            \<and> WriteFile os w2 (Join P [outdir, outname]) txt = (Some e, w')
            \<and> err = Errorf (''Commands: Error writing to '' @ Join P [outdir, outname]
                              @ '', error message: '' @ Msg e))"
proof (cases "MakeDir os w outdir")
  case (Pair r w1)
  obtain merr existed where r: "r = (merr, existed)" by (cases r)
  show ?thesis
  proof (cases merr)
    case (Some e0)
    with res Pair r have "err = e0" "w' = w1"
      by (auto simp: ExtractText_def Let_def split: if_splits)
    with Pair r Some show ?thesis
      by (auto simp: MakeDir_def split: prod.splits option.splits if_splits)
  next
    case None
    with res Pair r show ?thesis
      by (auto simp: ExtractText_def Let_def
            split: if_splits prod.splits outcome.splits option.splits)
  qed
qed

text \<open>
  C3.  When the guard does not skip and the directory has been made, a failing extraction
  tool (it cannot be started, or it exits with an error) makes \<open>ExtractText\<close> return
  no error, and the world is the one the tool left: nothing is written to the
  destination.  An error returned by \<open>ExtractText\<close> is either the error of making the
  directory or the error of writing the captured output to the destination.
\<close>

theorem ExtractText_soft_failure:
  "(\<not> handleOverwrite os w overwrite (Join P [outdir, outname])
      \<and> MakeDir os w outdir = ((None, existed), w1)
      \<and> buildCmd P os w1 (extractT cfg) [input] = Return tikaCmd
      \<and> toolFails (Spawn os w1 tikaCmd) \<longrightarrow>
      ExtractText P os cfg w input outdir outname overwrite =
        (Return None, if startErr (Spawn os w1 tikaCmd) \<noteq> None then w1
                      else effect (Spawn os w1 tikaCmd) w1))
   \<and> (\<forall>err w'. ExtractText P os cfg w input outdir outname overwrite = (Return (Some err), w') \<longrightarrow>
        (\<exists>e. MkdirAll os w outdir = (Some e, w') \<and> \<not> IsExist e
            \<and> err = Errorf (''Commands: Error making directory '' @ outdir
                              @ '', error message: '' @ Msg e))
        \<or> (\<exists>existed w1 tikaCmd txt w2 e.
            MakeDir os w outdir = ((None, existed), w1)
            \<and> buildCmd P os w1 (extractT cfg) [input] = Return tikaCmd
            \<and> Output os w1 tikaCmd = (Return (txt, None), w2)
            \<and> WriteFile os w2 (Join P [outdir, outname]) txt = (Some e, w')
            \<and> err = Errorf (''Commands: Error writing to '' @ Join P [outdir, outname]
                              @ '', error message: '' @ Msg e)))"
  using ExtractText_tool_failure [of os w overwrite P outdir outname existed w1 cfg input tikaCmd]
    ExtractText_error_origin [of P os cfg w input outdir outname overwrite]
  by blast

theorem ExtractText_soft_failure_witness:
  "\<not> handleOverwrite (exampleOS (exitsWith 1) None) [] False (Join unixP [''out'', ''a.txt''])
   \<and> MakeDir (exampleOS (exitsWith 1) None) [] ''out'' = ((None, False), [''out''])
   \<and> (\<exists>tikaCmd. buildCmd unixP (exampleOS (exitsWith 1) None) [''out''] (extractT defaults) [''in/a.doc'']
          = Return tikaCmd
        \<and> toolFails (Spawn (exampleOS (exitsWith 1) None) [''out''] tikaCmd))
   \<and> ExtractText unixP (exampleOS (exitsWith 1) None) defaults [] ''in/a.doc'' ''out'' ''a.txt'' False
       = (Return None, [''out''])
   \<and> ExtractText unixP (mkdirDenied (exampleOS (exitsWith 0) None)) defaults [] ''in/a.doc'' ''out'' ''a.txt'' False
       = (Return (Some (Errorf ''Commands: Error making directory out, error message: mkdir out: permission denied'')), [])"
proof -
  let ?os = "exampleOS (exitsWith 1) None"
  have guard: "\<not> handleOverwrite ?os [] False (Join unixP [''out'', ''a.txt''])"
    by (simp add: handleOverwrite_def exampleOS_def)
  have mk: "MakeDir ?os [] ''out'' = ((None, False), [''out''])"
    by (simp add: MakeDir_def exampleOS_def)
  obtain tikaCmd where cmd: "buildCmd unixP ?os [''out''] (extractT defaults) [''in/a.doc''] = Return tikaCmd"
    using tikaCmd_returns [of unixP ?os "[''out'']" defaults "''in/a.doc''"] by blast
  have failing: "toolFails (Spawn ?os [''out''] tikaCmd)"
    by (simp add: toolFails_def exitResult_def example_defs)
  have denied: "ExtractText unixP (mkdirDenied (exampleOS (exitsWith 0) None)) defaults [] ''in/a.doc'' ''out'' ''a.txt'' False
       = (Return (Some (Errorf ''Commands: Error making directory out, error message: mkdir out: permission denied'')), [])"
    by (simp add: ExtractText_def handleOverwrite_def MakeDir_def mkdirDenied_def exampleOS_def Let_def)
  show ?thesis
    using ExtractText_soft_failure [of ?os "[]" False unixP "''out''" "''a.txt''" False "[''out'']"
        defaults "''in/a.doc''" tikaCmd]
      ExtractText_soft_failure [of "mkdirDenied (exampleOS (exitsWith 0) None)" "[]" False unixP
        "''out''" "''a.txt''" False "[''out'']" defaults "''in/a.doc''" tikaCmd]
      guard mk cmd failing denied
    by (auto simp: example_defs)
qed

subsection \<open>Conversion to PDF\<close>

lemma pdfCmd_returns:
  "\<exists>pdfCmd. buildCmd P os w (pdf cfg) [outdir, input] = Return pdfCmd
     \<and> Args pdfCmd = pdf cfg @ [outdir, input]"
  by (cases "pdf cfg") (simp_all add: buildCmd_eq Args_Command)

text \<open>
  C2.  When the guard does not skip, the directory has been made and the bounded run has
  returned: if the destination exists, \<open>WordToPdf\<close> returns its path and no error; if
  it does not and removing the output directory succeeds, \<open>WordToPdf\<close> returns the
  empty path and no error, in the world without that directory; if the removal fails,
  \<open>WordToPdf\<close> returns the empty path and an error made of the two error messages.
\<close>

theorem WordToPdf_postcondition:
  assumes guard: "\<not> handleOverwrite os w overwrite (pdfOutput P input outdir)"
    and mk: "MakeDir os w outdir = ((None, existed), w1)"
    and cmd: "buildCmd P os w1 (pdf cfg) [outdir, input] = Return pdfCmd"
    and run: "timeOutRun os w1 pdfCmd (timeout cfg) = ((Return r, tm), w2)"
  shows "(Stat os w2 (pdfOutput P input outdir) = None \<longrightarrow>
            WordToPdf P os cfg w input outdir overwrite = (Return (pdfOutput P input outdir, None), w2))
       \<and> (\<forall>serr w3. Stat os w2 (pdfOutput P input outdir) = Some serr
              \<and> RemoveAll os w2 outdir = (None, w3) \<longrightarrow>
            WordToPdf P os cfg w input outdir overwrite = (Return ([], None), w3))
       \<and> (\<forall>serr e w3. Stat os w2 (pdfOutput P input outdir) = Some serr
              \<and> RemoveAll os w2 outdir = (Some e, w3) \<longrightarrow>
            WordToPdf P os cfg w input outdir overwrite =
              (Return ([], Some (Errorf (''Can't create, can't delete: '' @ Msg serr @ '', '' @ Msg e))), w3))"
  using guard by (simp add: WordToPdf_def mk cmd run)

lemma timeOutRun_example:
  "timeOutRun (exampleOS (\<lambda>cmd. exampleChild 5000 res eff) rm) w cmd (timeout defaults)
     = ((Return res, Stopped), eff w)"
  by (simp add: timeOutRun_def exampleOS_def exampleChild_def defaults_def Second_def Let_def timerStop_def)

lemma pdfOutput_example: "pdfOutput unixP ''in/a.docx'' ''out'' = ''out/a.pdf''"
  by (simp add: pdfOutput_def wordExts_def TrimSuffix_def HasSuffix_def example_defs)

theorem WordToPdf_postcondition_witness:
  "WordToPdf unixP (exampleOS (producing ''out/a.pdf'') None) defaults [] ''in/a.docx'' ''out'' False
     = (Return (''out/a.pdf'', None), [''out/a.pdf'', ''out''])
   \<and> WordToPdf unixP (exampleOS (exitsWith 0) None) defaults [] ''in/a.docx'' ''out'' False
     = (Return ([], None), [])
   \<and> WordToPdf unixP (exampleOS (exitsWith 0) (Some removeDenied)) defaults [] ''in/a.docx'' ''out'' False
     = (Return ([], Some (Errorf (''Can't create, can't delete: ''
          @ ''stat out/a.pdf: no such file or directory'' @ '', '' @ ''remove out: access denied''))), [''out''])"
proof -
  have guard: "\<not> handleOverwrite (exampleOS tool rm) [] False (pdfOutput unixP ''in/a.docx'' ''out'')" for tool rm
    by (simp add: handleOverwrite_def exampleOS_def)
  have mk: "MakeDir (exampleOS tool rm) [] ''out'' = ((None, False), [''out''])" for tool rm
    by (simp add: MakeDir_def exampleOS_def)
  have cmd: "\<exists>pdfCmd. buildCmd unixP (exampleOS tool rm) [''out''] (pdf defaults) [''out'', ''in/a.docx'']
      = Return pdfCmd" for tool rm
    using pdfCmd_returns [of unixP "exampleOS tool rm" "[''out'']" defaults "''out''" "''in/a.docx''"]
    by blast
  obtain c1 where c1: "buildCmd unixP (exampleOS (producing ''out/a.pdf'') None) [''out''] (pdf defaults)
      [''out'', ''in/a.docx''] = Return c1"
    using cmd by blast
  obtain c2 where c2: "buildCmd unixP (exampleOS (exitsWith 0) None) [''out''] (pdf defaults)
      [''out'', ''in/a.docx''] = Return c2"
    using cmd by blast
  obtain c3 where c3: "buildCmd unixP (exampleOS (exitsWith 0) (Some removeDenied)) [''out''] (pdf defaults)
      [''out'', ''in/a.docx''] = Return c3"
    using cmd by blast
  have run1: "timeOutRun (exampleOS (producing ''out/a.pdf'') None) [''out''] c1 (timeout defaults)
      = ((Return None, Stopped), [''out/a.pdf'', ''out''])"
    unfolding producing_def by (simp add: timeOutRun_example)
  have run2: "timeOutRun (exampleOS (exitsWith 0) rm) [''out''] c (timeout defaults)
      = ((Return None, Stopped), [''out''])" for rm c
    unfolding exitsWith_def by (simp add: timeOutRun_example exitResult_def)
  show ?thesis
    using WordToPdf_postcondition [OF guard mk c1 run1]
      WordToPdf_postcondition [OF guard mk c2 run2]
      WordToPdf_postcondition [OF guard mk c3 run2]
    by (simp add: pdfOutput_example exampleOS_def noSuchFile_def removeDenied_def HasPrefix_def)
qed

subsection \<open>Bounded execution\<close>

lemma timeOutRun_start_failure:
  "startErr (Spawn os w cmd) = Some err \<Longrightarrow>
   timeOutRun os w cmd dur = ((Return (Some err), Unset), w)"
  by (simp add: timeOutRun_def Let_def)

lemma timeOutRun_in_time:
  "startErr (Spawn os w cmd) = None \<Longrightarrow> exitsAt (Spawn os w cmd) = Some t \<Longrightarrow>
   int (t + stopLag (Spawn os w cmd)) \<le> dur \<Longrightarrow>
   timeOutRun os w cmd dur = ((Return (waitErr (Spawn os w cmd)), Stopped), effect (Spawn os w cmd) w)"
  by (simp add: timeOutRun_def Let_def timerStop_def)

lemma timeOutRun_killed:
  "killedAtDeadline (Spawn os w cmd) dur \<Longrightarrow>
   timeOutRun os w cmd dur =
     ((Return (Some (killedErr (Spawn os w cmd))), Fired), killedEffect (Spawn os w cmd) w)"
  by (auto simp: killedAtDeadline_def overruns_def timeOutRun_def Let_def timerStop_def
        split: option.splits)

lemma timeOutRun_kill_fails:
  "startErr (Spawn os w cmd) = None \<Longrightarrow> overruns (Spawn os w cmd) dur \<Longrightarrow>
   killErr (Spawn os w cmd) = Some e \<Longrightarrow>
   timeOutRun os w cmd dur = ((Panic e, Fired), killedEffect (Spawn os w cmd) w)"
  by (auto simp: overruns_def timeOutRun_def Let_def split: option.splits)

lemma timeOutRun_late_timer:
  "startErr (Spawn os w cmd) = None \<Longrightarrow> exitsAt (Spawn os w cmd) = Some t \<Longrightarrow>
   int t \<le> dur \<Longrightarrow> dur < int (t + stopLag (Spawn os w cmd)) \<Longrightarrow>
   timeOutRun os w cmd dur = ((Panic errFinished, Fired), effect (Spawn os w cmd) w)"
  by (simp add: timeOutRun_def Let_def)

lemma timeOutRun_timer_not_armed: "snd (fst (timeOutRun os w cmd dur)) \<noteq> Armed"
  by (simp add: timeOutRun_def Let_def timerStop_def split: option.split)

lemma timeOutRun_panic_origin:
  "fst (fst (timeOutRun os w cmd dur)) = Panic e \<Longrightarrow>
   snd (fst (timeOutRun os w cmd dur)) = Fired
   \<and> (killErr (Spawn os w cmd) = Some e \<and> overruns (Spawn os w cmd) dur
       \<or> e = errFinished \<and> \<not> overruns (Spawn os w cmd) dur)"
  by (auto simp: timeOutRun_def Let_def overruns_def split: option.splits if_splits)

text \<open>
  C5, as stated, fails: a child that exits by itself at 5000 ns and is collected by
  \<open>cmd.Wait\<close>, with \<open>timer.Stop()\<close> reached 1000 ns later and a timeout of 5500 ns.
  The timer fires after the normal completion, \<open>Process.Kill\<close> reports that the process
  has already finished, and the timer function panics.
\<close>

theorem timeOutRun_panics_counterexample:
  "startErr (Spawn (exampleOS (exitsWith 0) None) [] pdfCmdExample) = None
   \<and> exitsAt (Spawn (exampleOS (exitsWith 0) None) [] pdfCmdExample) = Some 5000
   \<and> waitErr (Spawn (exampleOS (exitsWith 0) None) [] pdfCmdExample) = None
   \<and> timeOutRun (exampleOS (exitsWith 0) None) [] pdfCmdExample 5500 = ((Panic errFinished, Fired), [])"
  by (simp add: timeOutRun_def exitResult_def example_defs)

text \<open>
  C5, amended.  The timer is never left armed by \<open>timeOutRun\<close>: it is not created
  when the start fails, it is stopped after a completion that comes with
  \<open>timer.Stop()\<close> before the deadline, and it has fired when the child is killed at the
  deadline.  A successful \<open>Process.Kill\<close> makes \<open>timeOutRun\<close> return the error of
  the killed child.  An error of \<open>Process.Kill\<close> is fatal: the timer function panics
  with it, and it does so with "process already finished" when the timer fires after the
  child has completed but before \<open>timer.Stop()\<close>.
\<close>

theorem timeOutRun_timer_and_panic:
  "snd (fst (timeOutRun os w cmd dur)) \<noteq> Armed
   \<and> (\<forall>err. startErr (Spawn os w cmd) = Some err \<longrightarrow>
         fst (timeOutRun os w cmd dur) = (Return (Some err), Unset))
   \<and> (\<forall>t. startErr (Spawn os w cmd) = None \<and> exitsAt (Spawn os w cmd) = Some t
           \<and> int (t + stopLag (Spawn os w cmd)) \<le> dur \<longrightarrow>
         fst (timeOutRun os w cmd dur) = (Return (waitErr (Spawn os w cmd)), Stopped))
   \<and> (killedAtDeadline (Spawn os w cmd) dur \<longrightarrow>
         fst (timeOutRun os w cmd dur) = (Return (Some (killedErr (Spawn os w cmd))), Fired))
   \<and> (\<forall>e. startErr (Spawn os w cmd) = None \<and> overruns (Spawn os w cmd) dur
           \<and> killErr (Spawn os w cmd) = Some e \<longrightarrow>
         fst (timeOutRun os w cmd dur) = (Panic e, Fired))
   \<and> (\<forall>t. startErr (Spawn os w cmd) = None \<and> exitsAt (Spawn os w cmd) = Some t
           \<and> int t \<le> dur \<and> dur < int (t + stopLag (Spawn os w cmd)) \<longrightarrow>
         fst (timeOutRun os w cmd dur) = (Panic errFinished, Fired))
   \<and> (\<forall>e. fst (fst (timeOutRun os w cmd dur)) = Panic e \<longrightarrow>
         killErr (Spawn os w cmd) = Some e \<and> overruns (Spawn os w cmd) dur
         \<or> e = errFinished \<and> \<not> overruns (Spawn os w cmd) dur)"
  using timeOutRun_timer_not_armed [of os w cmd dur] timeOutRun_panic_origin [of os w cmd dur]
  by (simp add: timeOutRun_start_failure timeOutRun_in_time timeOutRun_killed
        timeOutRun_kill_fails timeOutRun_late_timer)

theorem timeOutRun_timer_and_panic_witness:
  "killedAtDeadline (Spawn (exampleOS neverExits None) [] pdfCmdExample) (timeout defaults)
   \<and> fst (timeOutRun (exampleOS neverExits None) [] pdfCmdExample (timeout defaults))
        = (Return (Some (GoError ''signal: killed'' False)), Fired)
   \<and> fst (timeOutRun (exampleOS (exitsWith 3) None) [] pdfCmdExample (timeout defaults))
        = (Return (Some (exitError 3)), Stopped)
   \<and> fst (timeOutRun (exampleOS (exitsWith 0) None) [] pdfCmdExample 5500) = (Panic errFinished, Fired)
   \<and> snd (fst (timeOutRun (exampleOS (exitsWith 0) None) [] pdfCmdExample 5500)) \<noteq> Armed"
  using timeOutRun_timer_and_panic [of "exampleOS neverExits None" "[]" pdfCmdExample "timeout defaults"]
    timeOutRun_timer_and_panic [of "exampleOS (exitsWith 3) None" "[]" pdfCmdExample "timeout defaults"]
    timeOutRun_timer_and_panic [of "exampleOS (exitsWith 0) None" "[]" pdfCmdExample 5500]
  by (simp add: killedAtDeadline_def overruns_def neverExits_def exitResult_def defaults_def
        Second_def example_defs)

subsection \<open>Timeouts in the operations\<close>

lemma thumbCmd_returns:
  "\<exists>thumbCmd. buildCmd P os w (thumb cfg) [src, dst] = Return thumbCmd
     \<and> Args thumbCmd = thumb cfg @ [src, dst]"
  by (cases "thumb cfg") (simp_all add: buildCmd_eq Args_Command)

lemma Thumbnail_timeout:
  assumes guard: "\<not> handleOverwrite os w overwrite (Join P [outdir, outname])"
    and cmd: "buildCmd P os w (thumb cfg) [input @ ''[0]'', Join P [outdir, outname]] = Return thumbCmd"
    and killed: "killedAtDeadline (Spawn os w thumbCmd) (timeout cfg)"
  shows "Thumbnail P os cfg w input outdir outname overwrite =
     (Return (Some (killedErr (Spawn os w thumbCmd))), killedEffect (Spawn os w thumbCmd) w)"
  using guard by (simp add: Thumbnail_def cmd timeOutRun_killed [OF killed])

lemma WordToPdf_timeout:
  assumes guard: "\<not> handleOverwrite os w overwrite (pdfOutput P input outdir)"
    and mk: "MakeDir os w outdir = ((None, existed), w1)"
    and cmd: "buildCmd P os w1 (pdf cfg) [outdir, input] = Return pdfCmd"
    and killed: "killedAtDeadline (Spawn os w1 pdfCmd) (timeout cfg)"
  shows "WordToPdf P os cfg w input outdir overwrite =
     (case Stat os (killedEffect (Spawn os w1 pdfCmd) w1) (pdfOutput P input outdir) of
        None \<Rightarrow> (Return (pdfOutput P input outdir, None), killedEffect (Spawn os w1 pdfCmd) w1)
      | Some serr \<Rightarrow>
          (case RemoveAll os (killedEffect (Spawn os w1 pdfCmd) w1) outdir of
             (None, w3) \<Rightarrow> (Return ([], None), w3)
           | (Some e, w3) \<Rightarrow>
               (Return ([], Some (Errorf (''Can't create, can't delete: '' @ Msg serr
                                          @ '', '' @ Msg e))), w3)))"
  using guard
  by (simp add: WordToPdf_def mk cmd timeOutRun_killed [OF killed] split: option.split prod.split)

lemma pdfCmd_example:
  "buildCmd unixP (exampleOS tool rm) w (pdf defaults) [''out'', ''in/a.docx''] = Return pdfCmdExample"
  by (simp add: buildCmd_eq pdfCmdExample_def defaults_def bslash_def example_defs)

text \<open>
  C4, as stated, fails for \<open>WordToPdf\<close>: with a conversion tool that never exits, the
  bounded run ends with the error of the killed child, and \<open>WordToPdf\<close> returns the
  empty path and no error.
\<close>

theorem WordToPdf_timeout_counterexample:
  "\<not> handleOverwrite (exampleOS neverExits None) [] False (pdfOutput unixP ''in/a.docx'' ''out'')
   \<and> buildCmd unixP (exampleOS neverExits None) [''out''] (pdf defaults) [''out'', ''in/a.docx'']
        = Return pdfCmdExample
   \<and> timeOutRun (exampleOS neverExits None) [''out''] pdfCmdExample (timeout defaults)
        = ((Return (Some (GoError ''signal: killed'' False)), Fired), [''out''])
   \<and> WordToPdf unixP (exampleOS neverExits None) defaults [] ''in/a.docx'' ''out'' False
        = (Return ([], None), [])"
proof -
  have run: "timeOutRun (exampleOS neverExits None) [''out''] pdfCmdExample (timeout defaults)
        = ((Return (Some (GoError ''signal: killed'' False)), Fired), [''out''])"
    by (simp add: timeOutRun_def timerStop_def neverExits_def example_defs)
  have guard: "\<not> handleOverwrite (exampleOS neverExits None) [] False (pdfOutput unixP ''in/a.docx'' ''out'')"
    by (simp add: handleOverwrite_def exampleOS_def)
  have mk: "MakeDir (exampleOS neverExits None) [] ''out'' = ((None, False), [''out''])"
    by (simp add: MakeDir_def exampleOS_def)
  have killed: "killedAtDeadline (Spawn (exampleOS neverExits None) [''out''] pdfCmdExample) (timeout defaults)"
    by (simp add: killedAtDeadline_def overruns_def neverExits_def exampleOS_def exampleChild_def)
  have "WordToPdf unixP (exampleOS neverExits None) defaults [] ''in/a.docx'' ''out'' False
        = (Return ([], None), [])"
    using WordToPdf_timeout [OF guard mk pdfCmd_example killed]
    by (simp add: pdfOutput_example exampleOS_def neverExits_def exampleChild_def noSuchFile_def
          HasPrefix_def)
  with run guard pdfCmd_example show ?thesis by simp
qed

text \<open>
  C4, amended.  When the child is killed at the deadline, \<open>Thumbnail\<close> returns the
  error of the bounded run.  \<open>WordToPdf\<close> drops that error: its result is decided by
  whether the destination exists after the run, and, if it does not, by the removal of
  the output directory.
\<close>

theorem timeout_Thumbnail_error_WordToPdf_stat:
  "(\<not> handleOverwrite os w overwrite (Join P [outdir, outname])
      \<and> buildCmd P os w (thumb cfg) [input @ ''[0]'', Join P [outdir, outname]] = Return thumbCmd
      \<and> killedAtDeadline (Spawn os w thumbCmd) (timeout cfg) \<longrightarrow>
    Thumbnail P os cfg w input outdir outname overwrite =
      (Return (Some (killedErr (Spawn os w thumbCmd))), killedEffect (Spawn os w thumbCmd) w))
   \<and> (\<not> handleOverwrite os w overwrite (pdfOutput P input outdir)
      \<and> MakeDir os w outdir = ((None, existed), w1)
      \<and> buildCmd P os w1 (pdf cfg) [outdir, input] = Return pdfCmd
      \<and> killedAtDeadline (Spawn os w1 pdfCmd) (timeout cfg) \<longrightarrow>
    WordToPdf P os cfg w input outdir overwrite =
      (case Stat os (killedEffect (Spawn os w1 pdfCmd) w1) (pdfOutput P input outdir) of
         None \<Rightarrow> (Return (pdfOutput P input outdir, None), killedEffect (Spawn os w1 pdfCmd) w1)
       | Some serr \<Rightarrow>
           (case RemoveAll os (killedEffect (Spawn os w1 pdfCmd) w1) outdir of
              (None, w3) \<Rightarrow> (Return ([], None), w3)
            | (Some e, w3) \<Rightarrow>
                (Return ([], Some (Errorf (''Can't create, can't delete: '' @ Msg serr
                                           @ '', '' @ Msg e))), w3))))"
  using Thumbnail_timeout [of os w overwrite P outdir outname cfg input thumbCmd]
    WordToPdf_timeout [of os w overwrite P input outdir existed w1 cfg pdfCmd]
  by blast

lemma thumbCmd_example:
  "buildCmd unixP (exampleOS tool rm) w (thumb defaults) [''in/a.tif'' @ ''[0]'', Join unixP [''out'', ''a.png'']]
     = Return thumbCmdExample"
  by (simp add: buildCmd_eq thumbCmdExample_def defaults_def bslash_def example_defs)

theorem timeout_Thumbnail_error_WordToPdf_stat_witness:
  "Thumbnail unixP (exampleOS neverExits None) defaults [] ''in/a.tif'' ''out'' ''a.png'' False
     = (Return (Some (GoError ''signal: killed'' False)), [])
   \<and> WordToPdf unixP (exampleOS neverExits (Some removeDenied)) defaults [] ''in/a.docx'' ''out'' False
     = (Return ([], Some (Errorf (''Can't create, can't delete: ''
          @ ''stat out/a.pdf: no such file or directory'' @ '', '' @ ''remove out: access denied''))), [''out''])"
proof -
  have guard1: "\<not> handleOverwrite (exampleOS neverExits None) [] False (Join unixP [''out'', ''a.png''])"
    by (simp add: handleOverwrite_def exampleOS_def)
  have guard2: "\<not> handleOverwrite (exampleOS neverExits (Some removeDenied)) [] False
      (pdfOutput unixP ''in/a.docx'' ''out'')"
    by (simp add: handleOverwrite_def exampleOS_def)
  have mk: "MakeDir (exampleOS neverExits (Some removeDenied)) [] ''out'' = ((None, False), [''out''])"
    by (simp add: MakeDir_def exampleOS_def)
  have killed: "killedAtDeadline (Spawn (exampleOS neverExits rm) w c) (timeout defaults)" for rm w c
    by (simp add: killedAtDeadline_def overruns_def neverExits_def exampleOS_def exampleChild_def)
  show ?thesis
    using timeout_Thumbnail_error_WordToPdf_stat [of "exampleOS neverExits None" "[]" False unixP
        "''out''" "''a.png''" defaults "''in/a.tif''" thumbCmdExample]
      timeout_Thumbnail_error_WordToPdf_stat [of "exampleOS neverExits (Some removeDenied)" "[]" False unixP
        "''out''" "''a.png''" defaults "''in/a.docx''" thumbCmdExample False "[''out'']" pdfCmdExample]
      guard1 guard2 mk killed thumbCmd_example pdfCmd_example
    by (simp add: pdfOutput_example)
      (simp add: exampleOS_def neverExits_def exampleChild_def noSuchFile_def removeDenied_def)
qed

subsection \<open>The destination of the conversion\<close>

text \<open>A non-empty extension is a separator-free suffix of the path, and, unless the
  volume name reaches into it, a suffix of the base name.\<close>

lemma extFrom_shape:
  "extFrom P path n \<noteq> [] \<Longrightarrow> n \<le> length path \<Longrightarrow>
   \<exists>k<n. extFrom P path n = drop k path
      \<and> (\<forall>j. k \<le> j \<and> j < n \<longrightarrow> \<not> IsPathSeparator P (path ! j))"
proof (induction n)
  case 0
  then show ?case by simp
next
  case (Suc n)
  show ?case
  proof (cases "IsPathSeparator P (path ! n)")
    case True
    with Suc.prems show ?thesis by simp
  next
    case nosep: False
    show ?thesis
    proof (cases "path ! n = CHR ''.''")
      case True
      with nosep have "extFrom P path (Suc n) = drop n path" by simp
      with nosep show ?thesis
        by (intro exI [of _ n]) (auto simp: less_Suc_eq)
    next
      case False
      with nosep have eq: "extFrom P path (Suc n) = extFrom P path n" by simp
      with Suc.prems have "extFrom P path n \<noteq> []" "n \<le> length path" by simp_all
      from Suc.IH [OF this] obtain k where k: "k < n" "extFrom P path n = drop k path"
        "\<forall>j. k \<le> j \<and> j < n \<longrightarrow> \<not> IsPathSeparator P (path ! j)"
        by blast
      with nosep eq show ?thesis
        by (intro exI [of _ k]) (auto simp: less_Suc_eq)
    qed
  qed
qed

lemma Ext_shape:
  assumes "Ext P path \<noteq> []"
  shows "\<exists>pre. path = pre @ Ext P path \<and> (\<forall>c \<in> set (Ext P path). \<not> IsPathSeparator P c)"
proof -
  from extFrom_shape [of P path "length path"] assms
  obtain k where k: "k < length path" "Ext P path = drop k path"
    "\<forall>j. k \<le> j \<and> j < length path \<longrightarrow> \<not> IsPathSeparator P (path ! j)"
    by (auto simp: Ext_def)
  have "\<forall>c \<in> set (drop k path). \<not> IsPathSeparator P c"
  proof
    fix c assume "c \<in> set (drop k path)"
    then obtain i where "i < length (drop k path)" "c = drop k path ! i"
      by (auto simp: in_set_conv_nth)
    with k(3) show "\<not> IsPathSeparator P c" by simp
  qed
  with k(2) show ?thesis
    by (intro exI [of _ "take k path"]) simp
qed

lemma lastElem_append:
  assumes "\<forall>c \<in> set suf. \<not> IsPathSeparator P c"
  shows "lastElem P (pre @ suf) = lastElem P pre @ suf"
proof -
  have "takeWhile (\<lambda>c. \<not> IsPathSeparator P c) (rev suf @ rev pre)
      = rev suf @ takeWhile (\<lambda>c. \<not> IsPathSeparator P c) (rev pre)"
    by (rule takeWhile_append2) (use assms in auto)
  then show ?thesis
    by (simp add: lastElem_def)
qed

lemma Base_ends_with_Ext:
  assumes ext: "Ext P path \<noteq> []"
    and vol: "volumeNameLen P path + length (Ext P path) \<le> length path"
  shows "\<exists>stem. Base P path = stem @ Ext P path"
proof -
  from Ext_shape [OF ext] obtain pre where
    pre: "path = pre @ Ext P path" and nosep: "\<forall>c \<in> set (Ext P path). \<not> IsPathSeparator P c"
    by blast
  from ext have ne: "path \<noteq> []" by (auto simp: Ext_def)
  from ext nosep have "\<not> IsPathSeparator P (last (Ext P path))" by simp
  with pre ext have "\<not> IsPathSeparator P (last path)"
    by (metis last_appendR)
  with ne have "dropWhile (IsPathSeparator P) (rev path) = rev path"
    by (cases "rev path") (simp_all add: last_rev [symmetric] hd_rev)
  then have stripped: "rev (dropWhile (IsPathSeparator P) (rev path)) = path" by simp
  from vol pre have "volumeNameLen P path \<le> length pre"
    by (metis add_le_cancel_right length_append)
  then have "drop (volumeNameLen P path) path = drop (volumeNameLen P path) pre @ Ext P path"
    using pre by (metis drop_append diff_is_0_eq drop0)
  then have "lastElem P (drop (volumeNameLen P path) path)
      = lastElem P (drop (volumeNameLen P path) pre) @ Ext P path"
    using nosep by (simp add: lastElem_append)
  with ext ne stripped show ?thesis
    by (simp add: Base_def Let_def)
qed

lemma TrimSuffix_append: "TrimSuffix (stem @ suf) suf = stem"
  by (simp add: TrimSuffix_def HasSuffix_def)

text \<open>
  C6.  The destination of \<open>WordToPdf\<close> is the output directory joined with a file
  name.  If the extension of the input is one of the eight Word extensions, the name is
  the base name with that extension trimmed, followed by \<open>.pdf\<close>; for any other
  input (no extension, another extension, a Word extension in mixed case) it is the whole
  base name followed by \<open>.pdf\<close>.  When the extension lies outside the volume name
  (always so off Windows), the base name is a stem followed by the extension, and the
  file name is that stem followed by \<open>.pdf\<close>.
\<close>

theorem pdfOutput_extension:
  "(Ext P input \<in> set wordExts \<longrightarrow>
      pdfOutput P input outdir = Join P [outdir, TrimSuffix (Base P input) (Ext P input) @ ''.pdf''])
   \<and> (Ext P input \<notin> set wordExts \<longrightarrow>
      pdfOutput P input outdir = Join P [outdir, Base P input @ ''.pdf''])
   \<and> (Ext P input \<in> set wordExts
        \<and> volumeNameLen P input + length (Ext P input) \<le> length input \<longrightarrow>
      (\<exists>stem. Base P input = stem @ Ext P input
         \<and> pdfOutput P input outdir = Join P [outdir, stem @ ''.pdf'']))"
proof -
  have "\<exists>stem. Base P input = stem @ Ext P input
         \<and> pdfOutput P input outdir = Join P [outdir, stem @ ''.pdf'']"
    if word: "Ext P input \<in> set wordExts"
      and vol: "volumeNameLen P input + length (Ext P input) \<le> length input"
  proof -
    from word have "Ext P input \<noteq> []" by (auto simp: wordExts_def)
    from Base_ends_with_Ext [OF this vol] obtain stem where "Base P input = stem @ Ext P input"
      by blast
    with word show ?thesis
      by (simp add: pdfOutput_def TrimSuffix_append)
  qed
  then show ?thesis
    by (simp add: pdfOutput_def)
qed

theorem pdfOutput_extension_witness:
  "Ext unixP ''/a/b/report.docx'' \<in> set wordExts
   \<and> volumeNameLen unixP ''/a/b/report.docx'' + length (Ext unixP ''/a/b/report.docx'')
        \<le> length ''/a/b/report.docx''
   \<and> Base unixP ''/a/b/report.docx'' = ''report'' @ Ext unixP ''/a/b/report.docx''
   \<and> pdfOutput unixP ''/a/b/report.docx'' ''out'' = ''out/report.pdf''
   \<and> Ext winP (''C:'' @ [bslash] @ ''docs'' @ [bslash] @ ''a.DOCM'') \<in> set wordExts
   \<and> pdfOutput winP (''C:'' @ [bslash] @ ''docs'' @ [bslash] @ ''a.DOCM'') ''out'' = ''out'' @ [bslash] @ ''a.pdf''
   \<and> Ext unixP ''in/notes.txt'' \<notin> set wordExts
   \<and> pdfOutput unixP ''in/notes.txt'' ''out'' = ''out/notes.txt.pdf''
   \<and> Ext unixP ''in/x.Doc'' \<notin> set wordExts
   \<and> pdfOutput unixP ''in/x.Doc'' ''out'' = ''out/x.Doc.pdf''
   \<and> Ext unixP ''in/README'' \<notin> set wordExts
   \<and> pdfOutput unixP ''in/README'' ''out'' = ''out/README.pdf''"
  using pdfOutput_extension [of unixP "''/a/b/report.docx''" "''out''"]
    pdfOutput_extension [of winP "''C:'' @ [bslash] @ ''docs'' @ [bslash] @ ''a.DOCM''" "''out''"]
    pdfOutput_extension [of unixP "''in/notes.txt''" "''out''"]
    pdfOutput_extension [of unixP "''in/x.Doc''" "''out''"]
    pdfOutput_extension [of unixP "''in/README''" "''out''"]
  by (simp add: wordExts_def TrimSuffix_def HasSuffix_def bslash_def example_defs)

end
